theory Spec2Isabelle
  imports Complex_Main
begin

section \<open>Numbers and vectors\<close>

text \<open>
  JavaScript numbers are binary64 floating-point numbers.  They are modelled as reals, and
  the arithmetic of most definitions below is exact: such a definition computes what the
  TypeScript source computes when no rounding takes place.  Two departures of the source
  from exact arithmetic are written out.  A division whose divisor may be zero has an
  explicit result type (see \<open>js_div\<close> further down).  The interpolation of
  \<open>sampleTimeline\<close>, whose results are compared with stored positions, rounds the result
  of every addition, subtraction, multiplication and division; the rounding function is the
  parameter \<open>fl\<close> of \<open>lerpVectors\<close> and \<open>sampleTimeline\<close>, and the results about them
  assume of \<open>fl\<close> only what rounding to the nearest binary64 number satisfies.
\<close>

text \<open>\<open>THREE.Vector3\<close> and the plain \<open>{x, y, z}\<close> objects of the backend.\<close>

record Vector3 =
  vx :: real
  vy :: real
  vz :: real

definition multiplyScalar :: "Vector3 \<Rightarrow> real \<Rightarrow> Vector3" where
  "multiplyScalar v s = \<lparr>vx = vx v * s, vy = vy v * s, vz = vz v * s\<rparr>"

text \<open>
  \<open>Vector3.lerpVectors(v1, v2, alpha)\<close>: component-wise \<open>v1 + (v2 - v1) * alpha\<close>, each
  of the three operations rounded.
\<close>

definition lerpVectors :: "(real \<Rightarrow> real) \<Rightarrow> Vector3 \<Rightarrow> Vector3 \<Rightarrow> real \<Rightarrow> Vector3" where
  "lerpVectors fl v1 v2 alpha =
     \<lparr>vx = fl (vx v1 + fl (fl (vx v2 - vx v1) * alpha)),
      vy = fl (vy v1 + fl (fl (vy v2 - vy v1) * alpha)),
      vz = fl (vz v1 + fl (fl (vz v2 - vz v1) * alpha))\<rparr>"

text \<open>A vector whose components are numbers of the floating-point format: rounding keeps them.\<close>

definition representable :: "(real \<Rightarrow> real) \<Rightarrow> Vector3 \<Rightarrow> bool" where
  "representable fl v \<longleftrightarrow> fl (vx v) = vx v \<and> fl (vy v) = vy v \<and> fl (vz v) = vz v"

section \<open>utils/orbitalMechanics.ts: constants and unit normalisation\<close>

definition AU :: real where
  "AU = 149597870.7"

definition EARTH_ORBITAL_RADIUS :: real where
  "EARTH_ORBITAL_RADIUS = 1 * AU"

definition EARTH_ORBITAL_PERIOD :: real where
  "EARTH_ORBITAL_PERIOD = 365.25636 * 24 * 3600"

definition SCALE_FACTOR :: real where
  "SCALE_FACTOR = 1 / 149600"

text \<open>The three local constants of \<open>toScaledVector\<close>, then the function itself.\<close>

definition maxAbs :: "Vector3 \<Rightarrow> real" where
  "maxAbs v = max (max \<bar>vx v\<bar> \<bar>vy v\<bar>) \<bar>vz v\<bar>"

definition assumeMeters :: "Vector3 \<Rightarrow> bool" where
  "assumeMeters v = (maxAbs v > 500000000)"

definition factor :: "Vector3 \<Rightarrow> real" where
  "factor v = (if assumeMeters v then 1 / 1000 else 1)"

definition toScaledVector :: "Vector3 \<Rightarrow> Vector3" where
  "toScaledVector v =
     multiplyScalar \<lparr>vx = vx v * factor v, vy = vy v * factor v, vz = vz v * factor v\<rparr>
       SCALE_FACTOR"

section \<open>types: trajectory samples and simulation data\<close>

text \<open>
  \<open>TrajectoryPoint\<close>: the optional fields \<open>timestamp?\<close> and \<open>velocity?\<close> are options
  (\<open>None\<close> for an absent or undefined field).
\<close>

record TrajectoryPoint =
  position :: Vector3
  timestamp :: "real option"
  velocity :: "Vector3 option"

text \<open>\<open>SimulationData\<close>, restricted to the two trajectories the playback engine reads.\<close>

record SimulationData =
  asteroid_trajectory :: "TrajectoryPoint list"
  earth_trajectory :: "TrajectoryPoint list"

datatype SimulationMode = preview | full

section \<open>components/Scene.tsx: timelines\<close>

record TimelinePoint =
  tp_t :: real
  tp_position :: Vector3
  tp_timestamp :: real

record TimelineSample =
  sample_position :: Vector3
  sample_timestamp :: real

record TimelineAnimation =
  timeline :: "TimelinePoint list"
  durationMs :: real

definition ASTEROID_ANIMATION_DURATION_MS :: real where
  "ASTEROID_ANIMATION_DURATION_MS = 15000"

definition EARTH_ANIMATION_DURATION_MS :: real where
  "EARTH_ANIMATION_DURATION_MS = 15000"

text \<open>
  The local array \<open>timestamps\<close> of \<open>buildTimeline\<close>:
  \<open>points.map((point, index) => point.timestamp ?? index)\<close>.
\<close>

definition timestamps :: "TrajectoryPoint list \<Rightarrow> real list" where
  "timestamps points =
     map (\<lambda>(point, index). case timestamp point of Some ts \<Rightarrow> ts | None \<Rightarrow> real index)
       (zip points [0..<length points])"

text \<open>
  The local constant \<open>span\<close> of \<open>buildTimeline\<close>, from the first and the last entry of
  \<open>timestamps\<close>; it is read on non-empty input only.
\<close>

definition span :: "TrajectoryPoint list \<Rightarrow> real" where
  "span points =
     (let first = timestamps points ! 0;
          last = timestamps points ! (length (timestamps points) - 1)
      in if last \<noteq> first then last - first
         else if length points > 1 then real (length points - 1) else 1)"

definition buildTimeline :: "TrajectoryPoint list \<Rightarrow> TimelinePoint list" where
  "buildTimeline points =
     (if length points = 0 then []
      else
        map (\<lambda>(point, index).
               let normalized =
                     (if span points \<noteq> 0
                      then (timestamps points ! index - timestamps points ! 0) / span points
                      else 0)
               in \<lparr>tp_t = (if index = length points - 1 then 1
                           else min (max normalized 0) 1),
                   tp_position = toScaledVector (position point),
                   tp_timestamp = timestamps points ! index\<rparr>)
          (zip points [0..<length points]))"

text \<open>
  The binary search loop of \<open>sampleTimeline\<close>, started at \<open>lo = 0\<close>,
  \<open>hi = timeline.length - 1\<close>; it returns the final \<open>lo\<close>.  Every index it reads lies in
  \<open>lo..<hi\<close>, hence inside the array.
\<close>

function bsearch :: "TimelinePoint list \<Rightarrow> real \<Rightarrow> nat \<Rightarrow> nat \<Rightarrow> nat" where
  "bsearch tline clamped lo hi =
     (if lo < hi then
        (if tp_t (tline ! ((lo + hi) div 2)) < clamped
         then bsearch tline clamped ((lo + hi) div 2 + 1) hi
         else bsearch tline clamped lo ((lo + hi) div 2))
      else lo)"
  by pat_completeness auto
termination
  by (relation "measure (\<lambda>(tline, clamped, lo, hi). hi - lo)") auto

declare bsearch.simps [simp del]

text \<open>
  \<open>sampleTimeline\<close>.  The caller's scratch vector \<open>target\<close> receives the interpolated
  position and is returned as the sample's position; it is a module-level temporary that is
  never an element of a timeline, so the result is modelled as a fresh value.
  \<open>b.t - a.t || 1\<close> replaces a zero difference by 1.  Clamping, comparisons and the index
  arithmetic of the search are exact in binary64 and carry no rounding.
\<close>

definition sampleTimeline ::
  "(real \<Rightarrow> real) \<Rightarrow> TimelinePoint list \<Rightarrow> real \<Rightarrow> TimelineSample option" where
  "sampleTimeline fl tline progress =
     (if length tline = 0 then None
      else
        let clamped = min (max progress 0) 1;
            upperIndex = bsearch tline clamped 0 (length tline - 1);
            lowerIndex = nat (max 0 (int upperIndex - 1))
        in if \<not> lowerIndex < length tline \<or> \<not> upperIndex < length tline then None
           else
             let a = tline ! lowerIndex;
                 b = tline ! upperIndex;
                 span = (if fl (tp_t b - tp_t a) \<noteq> 0 then fl (tp_t b - tp_t a) else 1);
                 localT = (if span > 0 then fl (fl (clamped - tp_t a) / span) else 0)
             in Some \<lparr>sample_position = lerpVectors fl (tp_position a) (tp_position b) localT,
                      sample_timestamp =
                        fl (tp_timestamp a + fl (fl (tp_timestamp b - tp_timestamp a) * localT))\<rparr>)"

section \<open>components/Scene.tsx: playback state\<close>

text \<open>
  The refs of the \<open>Scene\<close> component that make up the playback clock.  The store fields
  \<open>playbackProgress\<close> and \<open>isPlaybackPlaying\<close> are written together with the refs
  (\<open>setPlaybackProgress\<close>, \<open>setIsPlaybackPlaying\<close>) and copied back into them by two
  effects, so one field stands for each pair.  \<open>sceneRef\<close> records whether
  \<open>sceneRef.current\<close> is set.  Meshes, labels, the camera and the idle-time accumulator
  are not part of the model.
\<close>

record SceneRefs =
  sceneRef :: bool
  asteroidAnimationRef :: "TimelineAnimation option"
  earthAnimationRef :: "TimelineAnimation option"
  playbackDurationRef :: real
  playbackProgressRef :: real
  isPlaybackPlayingRef :: bool
  globalStartTsRef :: "real option"
  globalEndTsRef :: "real option"
  globalSpanRef :: real

text \<open>
  The local constant \<open>duration\<close> of \<open>animate\<close>:
  \<open>playbackDurationRef.current || ASTEROID_ANIMATION_DURATION_MS\<close>.
\<close>

definition duration :: "SceneRefs \<Rightarrow> real" where
  "duration s =
     (if playbackDurationRef s \<noteq> 0 then playbackDurationRef s
      else ASTEROID_ANIMATION_DURATION_MS)"

text \<open>One frame of \<open>animate\<close>: the playback block, with \<open>deltaMs\<close> as measured by the frame.\<close>

definition animate :: "SceneRefs \<Rightarrow> real \<Rightarrow> SceneRefs" where
  "animate s deltaMs =
     (if isPlaybackPlayingRef s then
        if duration s > 0 then
          let increment = deltaMs / duration s
          in if increment > 0 then
               let nextProgress = min (playbackProgressRef s + increment) 1;
                   s1 = (if nextProgress \<noteq> playbackProgressRef s
                         then s\<lparr>playbackProgressRef := nextProgress\<rparr> else s)
               in if nextProgress \<ge> 1 then s1\<lparr>playbackProgressRef := 0\<rparr> else s1
             else s
        else s
      else s)"

text \<open>A run of frames, one \<open>deltaMs\<close> per frame.\<close>

fun animate_frames :: "SceneRefs \<Rightarrow> real list \<Rightarrow> SceneRefs" where
  "animate_frames s [] = s"
| "animate_frames s (deltaMs # rest) = animate_frames (animate s deltaMs) rest"

definition resetPlayback :: "SceneRefs \<Rightarrow> SceneRefs" where
  "resetPlayback s =
     (let s1 = (if playbackProgressRef s \<noteq> 0 then s\<lparr>playbackProgressRef := 0\<rparr> else s)
      in if isPlaybackPlayingRef s1 then s1\<lparr>isPlaybackPlayingRef := False\<rparr> else s1)"

text \<open>\<open>Math.min(...xs)\<close> and \<open>Math.max(...xs)\<close>, called on non-empty arrays only.\<close>

definition Math_min :: "real list \<Rightarrow> real" where
  "Math_min xs = Min (set xs)"

definition Math_max :: "real list \<Rightarrow> real" where
  "Math_max xs = Max (set xs)"

text \<open>The arrays \<open>starts\<close> and \<open>ends\<close> and the global timestamp span computed from them.\<close>

definition starts :: "SceneRefs \<Rightarrow> real list" where
  "starts s =
     (case asteroidAnimationRef s of
        Some a \<Rightarrow> if length (timeline a) \<noteq> 0 then [tp_timestamp (timeline a ! 0)] else []
      | None \<Rightarrow> []) @
     (case earthAnimationRef s of
        Some a \<Rightarrow> if length (timeline a) \<noteq> 0 then [tp_timestamp (timeline a ! 0)] else []
      | None \<Rightarrow> [])"

definition ends :: "SceneRefs \<Rightarrow> real list" where
  "ends s =
     (case asteroidAnimationRef s of
        Some a \<Rightarrow> if length (timeline a) \<noteq> 0
                  then [tp_timestamp (timeline a ! (length (timeline a) - 1))] else []
      | None \<Rightarrow> []) @
     (case earthAnimationRef s of
        Some a \<Rightarrow> if length (timeline a) \<noteq> 0
                  then [tp_timestamp (timeline a ! (length (timeline a) - 1))] else []
      | None \<Rightarrow> [])"

definition globalTimestampSpan :: "SceneRefs \<Rightarrow> SceneRefs" where
  "globalTimestampSpan s =
     (if length (starts s) \<noteq> 0 \<and> length (ends s) \<noteq> 0 then
        let gStart = Math_min (starts s);
            gEnd = Math_max (ends s)
        in s\<lparr>globalStartTsRef := Some gStart, globalEndTsRef := Some gEnd,
              globalSpanRef := max (gEnd - gStart) 1\<rparr>
      else s)"

text \<open>
  The effect of \<open>Scene\<close> that runs whenever \<open>simulationData\<close> or \<open>simulationMode\<close>
  changes.  It has three exits: no simulation data, preview mode, and the full-simulation
  path that builds both timelines.
\<close>

definition simulationDataEffect ::
  "SceneRefs \<Rightarrow> SimulationData option \<Rightarrow> SimulationMode option \<Rightarrow> SceneRefs" where
  "simulationDataEffect s simulationData simulationMode =
     (if \<not> sceneRef s then s
      else case simulationData of
        None \<Rightarrow>
          resetPlayback
            (s\<lparr>asteroidAnimationRef := None, earthAnimationRef := None,
               playbackDurationRef := ASTEROID_ANIMATION_DURATION_MS\<rparr>)
      | Some d \<Rightarrow>
          if simulationMode = Some preview then
            resetPlayback
              (s\<lparr>asteroidAnimationRef := None, earthAnimationRef := None,
                 playbackDurationRef := ASTEROID_ANIMATION_DURATION_MS\<rparr>)
          else
            let asteroidTimeline = buildTimeline (asteroid_trajectory d);
                s1 = s\<lparr>asteroidAnimationRef :=
                          (if length asteroidTimeline > 0
                           then Some \<lparr>timeline = asteroidTimeline,
                                      durationMs = ASTEROID_ANIMATION_DURATION_MS\<rparr>
                           else None)\<rparr>;
                earthTimeline = buildTimeline (earth_trajectory d);
                s2 = s1\<lparr>earthAnimationRef :=
                           (if length earthTimeline > 0
                            then Some \<lparr>timeline = earthTimeline,
                                       durationMs = EARTH_ANIMATION_DURATION_MS\<rparr>
                            else None)\<rparr>;
                s3 = globalTimestampSpan s2;
                s4 = s3\<lparr>playbackDurationRef := ASTEROID_ANIMATION_DURATION_MS\<rparr>
            in if playbackProgressRef s4 > 1 then s4\<lparr>playbackProgressRef := 1\<rparr> else s4)"

section \<open>utils/orbitDiagnostics.ts\<close>

text \<open>
  A JavaScript division does not fail on a zero divisor: it yields \<open>Infinity\<close>,
  \<open>-Infinity\<close> or \<open>NaN\<close>.  A number that may be one of these is modelled as a
  \<open>real option\<close>, \<open>None\<close> standing for any of the three non-finite values; subtracting a
  finite number from it, multiplying it by 100 or dividing it by a finite number keeps it
  non-finite, which is \<open>map_option\<close> and \<open>Option.bind\<close>.  Divisions by the non-zero
  constants \<open>SCALE_FACTOR\<close>, \<open>AU_KM\<close> and 2 stay in the reals.
\<close>

definition js_div :: "real \<Rightarrow> real \<Rightarrow> real option" where
  "js_div x y = (if y = 0 then None else Some (x / y))"

record OrbitMetaLike =
  meta_a_au :: real
  meta_e :: real
  meta_q_au :: real
  meta_Q_au :: real

record DerivedOrbit =
  derived_a_au :: real
  derived_e :: "real option"
  derived_q_au :: real
  derived_Q_au :: real

record Deltas =
  da :: real
  de :: "real option"
  dq :: real
  dQ :: real

record Percent =
  a_pct :: "real option"
  e_pct :: "real option"
  q_pct :: "real option"
  Q_pct :: "real option"

record OrbitDiagnosticsResult =
  derived :: DerivedOrbit
  deltas :: Deltas
  percent :: Percent
  sampleCount :: nat
  rMinAU :: real
  rMaxAU :: real

definition AU_KM :: real where
  "AU_KM = 149597870.7"

text \<open>\<open>Vector3.length()\<close>.\<close>

definition length_v3 :: "Vector3 \<Rightarrow> real" where
  "length_v3 v = sqrt (vx v * vx v + vy v * vy v + vz v * vz v)"

text \<open>
  \<open>analyzeOrbit(points, meta?)\<close>; the module's own \<open>SCALE_FACTOR\<close> is the same number
  as the one of orbitalMechanics.
\<close>

definition analyzeOrbit ::
  "Vector3 list \<Rightarrow> OrbitMetaLike option \<Rightarrow> OrbitDiagnosticsResult option" where
  "analyzeOrbit points meta =
     (if length points < 4 then None
      else
        let rs = map length_v3 points;
            rMin = Math_min rs;
            rMax = Math_max rs;
            kmMin = rMin / SCALE_FACTOR;
            kmMax = rMax / SCALE_FACTOR;
            q = kmMin / AU_KM;
            Q = kmMax / AU_KM;
            a = (q + Q) / 2;
            e = js_div (Q - q) (Q + q);
            drv = \<lparr>derived_a_au = a, derived_e = e, derived_q_au = q, derived_Q_au = Q\<rparr>
        in case meta of
             None \<Rightarrow>
               Some \<lparr>derived = drv,
                     deltas = \<lparr>da = 0, de = Some 0, dq = 0, dQ = 0\<rparr>,
                     percent = \<lparr>a_pct = Some 0, e_pct = Some 0, q_pct = Some 0,
                                Q_pct = Some 0\<rparr>,
                     sampleCount = length points, rMinAU = q, rMaxAU = Q\<rparr>
           | Some m \<Rightarrow>
               let dlt = \<lparr>da = derived_a_au drv - meta_a_au m,
                          de = map_option (\<lambda>v. v - meta_e m) (derived_e drv),
                          dq = derived_q_au drv - meta_q_au m,
                          dQ = derived_Q_au drv - meta_Q_au m\<rparr>;
                   pct = \<lparr>a_pct = map_option (\<lambda>v. v * 100) (js_div (da dlt) (meta_a_au m)),
                          e_pct = (if meta_e m \<noteq> 0
                                   then map_option (\<lambda>v. v * 100)
                                          (Option.bind (de dlt) (\<lambda>d. js_div d (meta_e m)))
                                   else Some 0),
                          q_pct = map_option (\<lambda>v. v * 100) (js_div (dq dlt) (meta_q_au m)),
                          Q_pct = map_option (\<lambda>v. v * 100) (js_div (dQ dlt) (meta_Q_au m))\<rparr>
               in Some \<lparr>derived = drv, deltas = dlt, percent = pct,
                        sampleCount = length points, rMinAU = q, rMaxAU = Q\<rparr>)"

section \<open>utils/orbitalMechanics.ts: Earth's Keplerian orbit\<close>

text \<open>\<open>THREE.MathUtils.degToRad\<close>.\<close>

definition degToRad :: "real \<Rightarrow> real" where
  "degToRad degrees = degrees * (pi / 180)"

definition EARTH_ECCENTRICITY :: real where
  "EARTH_ECCENTRICITY = 0.01671022"

definition EARTH_INCLINATION :: real where
  "EARTH_INCLINATION = degToRad 0.00005"

definition EARTH_LONG_ASC_NODE :: real where
  "EARTH_LONG_ASC_NODE = degToRad (- 11.26064)"

definition EARTH_ARG_PERIHELION :: real where
  "EARTH_ARG_PERIHELION = degToRad 102.94719"

definition EARTH_MEAN_ANOMALY_EPOCH :: real where
  "EARTH_MEAN_ANOMALY_EPOCH = degToRad (100.46435 - 102.94719 - (- 11.26064))"

text \<open>\<open>THREE.Matrix3\<close>, by rows as \<open>Matrix3.set\<close> takes its arguments.\<close>

record Matrix3 =
  m11 :: real
  m12 :: real
  m13 :: real
  m21 :: real
  m22 :: real
  m23 :: real
  m31 :: real
  m32 :: real
  m33 :: real

definition getPerifocalToEclipticMatrix :: Matrix3 where
  "getPerifocalToEclipticMatrix =
     (let cosO = cos EARTH_LONG_ASC_NODE;
          sinO = sin EARTH_LONG_ASC_NODE;
          cosi = cos EARTH_INCLINATION;
          sini = sin EARTH_INCLINATION;
          cosw = cos EARTH_ARG_PERIHELION;
          sinw = sin EARTH_ARG_PERIHELION
      in \<lparr>m11 = cosO * cosw - sinO * sinw * cosi,
          m12 = - cosO * sinw - sinO * cosw * cosi,
          m13 = sinO * sini,
          m21 = sinO * cosw + cosO * sinw * cosi,
          m22 = - sinO * sinw + cosO * cosw * cosi,
          m23 = - cosO * sini,
          m31 = sinw * sini,
          m32 = cosw * sini,
          m33 = cosi\<rparr>)"

definition PERIFOCAL_TO_ECLIPTIC :: Matrix3 where
  "PERIFOCAL_TO_ECLIPTIC = getPerifocalToEclipticMatrix"

text \<open>\<open>Vector3.applyMatrix3(m)\<close>: the matrix times the column vector.\<close>

definition applyMatrix3 :: "Vector3 \<Rightarrow> Matrix3 \<Rightarrow> Vector3" where
  "applyMatrix3 v m =
     \<lparr>vx = m11 m * vx v + m12 m * vy v + m13 m * vz v,
      vy = m21 m * vx v + m22 m * vy v + m23 m * vz v,
      vz = m31 m * vx v + m32 m * vy v + m33 m * vz v\<rparr>"

text \<open>
  The remainder operator \<open>x % y\<close> on numbers, for a non-zero divisor: the quotient is
  truncated toward zero, so the result has the sign of \<open>x\<close>.
\<close>

definition js_trunc :: "real \<Rightarrow> int" where
  "js_trunc r = (if 0 \<le> r then \<lfloor>r\<rfloor> else \<lceil>r\<rceil>)"

definition js_rem :: "real \<Rightarrow> real \<Rightarrow> real" where
  "js_rem x y = x - y * of_int (js_trunc (x / y))"

text \<open>
  The Newton loop \<open>for (let it = 0; it < 7; it++)\<close> of \<open>getEarthPosition\<close>, with the number
  of remaining iterations as first argument.
\<close>

fun newton :: "nat \<Rightarrow> real \<Rightarrow> real \<Rightarrow> real \<Rightarrow> real" where
  "newton 0 e M E = E"
| "newton (Suc it) e M E =
     (let f = E - e * sin E - M;
          fp = 1 - e * cos E
      in newton it e M (E - f / fp))"

definition getEarthPosition :: "real \<Rightarrow> Vector3" where
  "getEarthPosition time =
     (let a = EARTH_ORBITAL_RADIUS;
          e = EARTH_ECCENTRICITY;
          n = (2 * pi) / EARTH_ORBITAL_PERIOD;
          M = EARTH_MEAN_ANOMALY_EPOCH + n * js_rem time EARTH_ORBITAL_PERIOD;
          E = newton 7 e M M;
          cosE = cos E;
          sinE = sin E;
          x_pf = a * (cosE - e);
          y_pf = a * sqrt (1 - e * e) * sinE
      in multiplyScalar
           (applyMatrix3 \<lparr>vx = x_pf, vy = y_pf, vz = 0\<rparr> PERIFOCAL_TO_ECLIPTIC)
           SCALE_FACTOR)"

section \<open>Concrete inputs\<close>

text \<open>
  Inputs on which the results below are evaluated: the end-to-end scenario of the
  specification (an asteroid sampled at 0, 100, 200 and Earth sampled at 50, 150, 250) and a
  few small variations.
\<close>

definition sample_at :: "real \<Rightarrow> real option \<Rightarrow> TrajectoryPoint" where
  "sample_at x ts = \<lparr>position = \<lparr>vx = x, vy = 0, vz = 0\<rparr>, timestamp = ts, velocity = None\<rparr>"

definition scenario_asteroid :: "TrajectoryPoint list" where
  "scenario_asteroid = [sample_at 1 (Some 0), sample_at 2 (Some 100), sample_at 3 (Some 200)]"

definition scenario_earth :: "TrajectoryPoint list" where
  "scenario_earth = [sample_at 4 (Some 50), sample_at 5 (Some 150), sample_at 6 (Some 250)]"

definition single_sample :: "TrajectoryPoint list" where
  "single_sample = [sample_at 1 (Some 5)]"

definition index_timed :: "TrajectoryPoint list" where
  "index_timed = [sample_at 1 None, sample_at 2 None, sample_at 3 (Some 200)]"

definition repeated_final_timestamp :: "TrajectoryPoint list" where
  "repeated_final_timestamp =
     [sample_at 1 (Some 0), sample_at 2 (Some 10), sample_at 3 (Some 10)]"

definition unordered_asteroid :: "TrajectoryPoint list" where
  "unordered_asteroid = [sample_at 1 (Some 5), sample_at 2 (Some 0), sample_at 3 (Some 10)]"

definition three_point_timeline :: "TimelinePoint list" where
  "three_point_timeline =
     [\<lparr>tp_t = 0, tp_position = \<lparr>vx = 1, vy = 0, vz = 0\<rparr>, tp_timestamp = 0\<rparr>,
      \<lparr>tp_t = 1 / 2, tp_position = \<lparr>vx = 2, vy = 0, vz = 0\<rparr>, tp_timestamp = 100\<rparr>,
      \<lparr>tp_t = 1, tp_position = \<lparr>vx = 3, vy = 0, vz = 0\<rparr>, tp_timestamp = 200\<rparr>]"

text \<open>
  A coarse rounding function with two precisions, to evaluate the interpolation under a
  rounding that is not the identity: below ten it rounds to integers, from ten on to
  multiples of ten.
\<close>

definition coarse_fl :: "real \<Rightarrow> real" where
  "coarse_fl x = (if \<bar>x\<bar> < 10 then of_int (round x) else 10 * of_int (round (x / 10)))"

definition far_apart_timeline :: "TimelinePoint list" where
  "far_apart_timeline =
     [\<lparr>tp_t = 0, tp_position = \<lparr>vx = 20, vy = 0, vz = 0\<rparr>, tp_timestamp = 0\<rparr>,
      \<lparr>tp_t = 1, tp_position = \<lparr>vx = 1, vy = 0, vz = 0\<rparr>, tp_timestamp = 10\<rparr>]"

definition playing_midway :: SceneRefs where
  "playing_midway =
     \<lparr>sceneRef = True, asteroidAnimationRef = None, earthAnimationRef = None,
      playbackDurationRef = 15000, playbackProgressRef = 1 / 2,
      isPlaybackPlayingRef = True, globalStartTsRef = None, globalEndTsRef = None,
      globalSpanRef = 1\<rparr>"

definition playing_near_end :: SceneRefs where
  "playing_near_end =
     \<lparr>sceneRef = True, asteroidAnimationRef = None, earthAnimationRef = None,
      playbackDurationRef = 15000, playbackProgressRef = 98 / 100,
      isPlaybackPlayingRef = True, globalStartTsRef = None, globalEndTsRef = None,
      globalSpanRef = 1\<rparr>"

definition unit_points :: "Vector3 list" where
  "unit_points =
     [\<lparr>vx = 1, vy = 0, vz = 0\<rparr>, \<lparr>vx = 0, vy = 1, vz = 0\<rparr>,
      \<lparr>vx = - 1, vy = 0, vz = 0\<rparr>, \<lparr>vx = 0, vy = - 1, vz = 0\<rparr>]"

definition meters_vector :: Vector3 where
  "meters_vector = \<lparr>vx = 6 * 10 ^ 8, vy = 0, vz = - 3\<rparr>"

definition kilometers_vector :: Vector3 where
  "kilometers_vector = \<lparr>vx = 7, vy = - 4 * 10 ^ 8, vz = 0\<rparr>"

section \<open>Unit normalisation\<close>

text \<open>
  Claim C8.  A raw vector is classified as meters exactly when the largest absolute
  component exceeds \<open>5 * 10^8\<close>; then every component is divided by 1000 before the
  display scale factor is applied, and otherwise only the display scale factor is applied.
\<close>

theorem toScaledVector_classification:
  "(assumeMeters v \<longleftrightarrow> max (max \<bar>vx v\<bar> \<bar>vy v\<bar>) \<bar>vz v\<bar> > 5 * 10 ^ 8) \<and>
   (max (max \<bar>vx v\<bar> \<bar>vy v\<bar>) \<bar>vz v\<bar> > 5 * 10 ^ 8 \<longrightarrow>
      toScaledVector v =
        \<lparr>vx = vx v / 1000 * SCALE_FACTOR, vy = vy v / 1000 * SCALE_FACTOR,
         vz = vz v / 1000 * SCALE_FACTOR\<rparr>) \<and>
   (\<not> max (max \<bar>vx v\<bar> \<bar>vy v\<bar>) \<bar>vz v\<bar> > 5 * 10 ^ 8 \<longrightarrow>
      toScaledVector v =
        \<lparr>vx = vx v * SCALE_FACTOR, vy = vy v * SCALE_FACTOR, vz = vz v * SCALE_FACTOR\<rparr>)"
  by (simp add: toScaledVector_def factor_def assumeMeters_def maxAbs_def multiplyScalar_def)

text \<open>
  The two vectors named by the specification: largest component \<open>6 * 10^8\<close> takes the
  meters path, largest component \<open>4 * 10^8\<close> the kilometers path.
\<close>

theorem toScaledVector_classification_witness:
  "max (max \<bar>vx meters_vector\<bar> \<bar>vy meters_vector\<bar>) \<bar>vz meters_vector\<bar> = 6 * 10 ^ 8 \<and>
   max (max \<bar>vx meters_vector\<bar> \<bar>vy meters_vector\<bar>) \<bar>vz meters_vector\<bar> > 5 * 10 ^ 8 \<and>
   assumeMeters meters_vector \<and>
   toScaledVector meters_vector =
     \<lparr>vx = 6 * 10 ^ 8 / 1000 * SCALE_FACTOR, vy = 0, vz = - 3 / 1000 * SCALE_FACTOR\<rparr> \<and>
   max (max \<bar>vx kilometers_vector\<bar> \<bar>vy kilometers_vector\<bar>) \<bar>vz kilometers_vector\<bar>
     = 4 * 10 ^ 8 \<and>
   \<not> max (max \<bar>vx kilometers_vector\<bar> \<bar>vy kilometers_vector\<bar>) \<bar>vz kilometers_vector\<bar>
       > 5 * 10 ^ 8 \<and>
   \<not> assumeMeters kilometers_vector \<and>
   toScaledVector kilometers_vector =
     \<lparr>vx = 7 * SCALE_FACTOR, vy = - 4 * 10 ^ 8 * SCALE_FACTOR, vz = 0\<rparr>"
  using toScaledVector_classification [of meters_vector]
    toScaledVector_classification [of kilometers_vector]
  by (simp add: meters_vector_def kilometers_vector_def)

text \<open>
  Claim C10.  The result is always a uniform positive multiple \<open>(c * x, c * y, c * z)\<close> of
  the input, with \<open>c = SCALE_FACTOR / 1000\<close> on the meters branch and \<open>c = SCALE_FACTOR\<close>
  on the kilometers branch.
\<close>

theorem toScaledVector_uniform_scale:
  "toScaledVector v =
     \<lparr>vx = (if assumeMeters v then SCALE_FACTOR / 1000 else SCALE_FACTOR) * vx v,
      vy = (if assumeMeters v then SCALE_FACTOR / 1000 else SCALE_FACTOR) * vy v,
      vz = (if assumeMeters v then SCALE_FACTOR / 1000 else SCALE_FACTOR) * vz v\<rparr> \<and>
   0 < (if assumeMeters v then SCALE_FACTOR / 1000 else SCALE_FACTOR)"
  by (simp add: toScaledVector_def factor_def multiplyScalar_def SCALE_FACTOR_def)

section \<open>Building timelines\<close>

subsection \<open>Indexing the result\<close>

lemma length_timestamps: "length (timestamps points) = length points"
  by (simp add: timestamps_def)

lemma timestamps_nth:
  "i < length points \<Longrightarrow>
   timestamps points ! i = (case timestamp (points ! i) of Some ts \<Rightarrow> ts | None \<Rightarrow> real i)"
  by (simp add: timestamps_def)

lemma length_buildTimeline: "length (buildTimeline points) = length points"
  by (simp add: buildTimeline_def)

lemma span_hd_last:
  assumes "points \<noteq> []"
  shows "span points =
     (if last (timestamps points) \<noteq> hd (timestamps points)
      then last (timestamps points) - hd (timestamps points)
      else if length points > 1 then real (length points - 1) else 1)"
proof -
  have ne: "timestamps points \<noteq> []"
    using assms length_timestamps [of points] by auto
  have h: "timestamps points ! 0 = hd (timestamps points)"
    using ne by (simp add: hd_conv_nth)
  have l: "timestamps points ! (length (timestamps points) - 1) = last (timestamps points)"
    using ne by (simp add: last_conv_nth)
  show ?thesis
    unfolding span_def Let_def h l by simp
qed

lemma span_nonzero: "points \<noteq> [] \<Longrightarrow> span points \<noteq> 0"
  by (auto simp: span_hd_last)

lemma span_positive:
  assumes "points \<noteq> []" and "sorted (timestamps points)"
  shows "0 < span points"
proof -
  have ne: "timestamps points \<noteq> []"
    using assms(1) length_timestamps [of points] by auto
  have "hd (timestamps points) \<le> last (timestamps points)"
    using assms(2) ne
    by (metis hd_conv_nth last_conv_nth sorted_iff_nth_mono diff_less length_greater_0_conv
        zero_le zero_less_one)
  then show ?thesis
    using assms(1) by (auto simp: span_hd_last)
qed

lemma buildTimeline_nth:
  assumes "i < length points"
  shows "buildTimeline points ! i =
     \<lparr>tp_t = (if i = length points - 1 then 1
              else min (max ((timestamps points ! i - hd (timestamps points)) / span points) 0) 1),
      tp_position = toScaledVector (position (points ! i)),
      tp_timestamp = timestamps points ! i\<rparr>"
proof -
  have pne: "points \<noteq> []" using assms by auto
  then have ne: "timestamps points \<noteq> []"
    using length_timestamps [of points] by auto
  have h: "timestamps points ! 0 = hd (timestamps points)"
    using ne by (simp add: hd_conv_nth)
  show ?thesis
    using assms pne span_nonzero [OF pne] by (simp add: buildTimeline_def h)
qed

lemma buildTimeline_t_nth:
  "i < length points \<Longrightarrow>
   tp_t (buildTimeline points ! i) =
     (if i = length points - 1 then 1
      else min (max ((timestamps points ! i - hd (timestamps points)) / span points) 0) 1)"
  by (simp add: buildTimeline_nth)

lemma buildTimeline_t_le_one: "i < length points \<Longrightarrow> tp_t (buildTimeline points ! i) \<le> 1"
  by (simp add: buildTimeline_t_nth)

lemma buildTimeline_t_hd:
  assumes "2 \<le> length points"
  shows "tp_t (hd (buildTimeline points)) = 0"
proof -
  have pos: "0 < length points" and ne: "0 \<noteq> length points - 1"
    using assms by auto
  have tne: "timestamps points \<noteq> []"
    using pos length_timestamps [of points] by auto
  have "buildTimeline points \<noteq> []"
    using pos length_buildTimeline [of points] by auto
  then have "tp_t (hd (buildTimeline points)) = tp_t (buildTimeline points ! 0)"
    by (simp add: hd_conv_nth)
  also have "\<dots> = min (max ((timestamps points ! 0 - hd (timestamps points)) / span points) 0) 1"
    using buildTimeline_t_nth [OF pos] ne by simp
  also have "\<dots> = 0"
    using tne by (simp add: hd_conv_nth)
  finally show ?thesis .
qed

lemma buildTimeline_t_last:
  assumes "points \<noteq> []"
  shows "tp_t (last (buildTimeline points)) = 1"
proof -
  have lt: "length points - 1 < length points"
    using assms by simp
  have "buildTimeline points \<noteq> []"
    using assms length_buildTimeline [of points] by auto
  then have "tp_t (last (buildTimeline points)) = tp_t (buildTimeline points ! (length points - 1))"
    by (simp add: last_conv_nth length_buildTimeline)
  then show ?thesis
    using buildTimeline_t_nth [OF lt] by simp
qed

lemma buildTimeline_sorted:
  assumes "points \<noteq> []" and "sorted (timestamps points)"
  shows "sorted (map tp_t (buildTimeline points))"
proof -
  have sp: "0 < span points" using assms by (rule span_positive)
  have "tp_t (buildTimeline points ! i) \<le> tp_t (buildTimeline points ! j)"
    if "i \<le> j" and "j < length points" for i j
  proof (cases "j = length points - 1")
    case True
    then have "tp_t (buildTimeline points ! j) = 1"
      using that by (simp add: buildTimeline_t_nth)
    moreover have "tp_t (buildTimeline points ! i) \<le> 1"
      using that by (simp add: buildTimeline_t_le_one)
    ultimately show ?thesis by simp
  next
    case False
    then have ni: "i \<noteq> length points - 1" using that by auto
    have "timestamps points ! i \<le> timestamps points ! j"
      using assms(2) that by (simp add: sorted_iff_nth_mono length_timestamps)
    then have "(timestamps points ! i - hd (timestamps points)) / span points
               \<le> (timestamps points ! j - hd (timestamps points)) / span points"
      using sp by (simp add: divide_right_mono)
    then show ?thesis
      using that False ni by (simp add: buildTimeline_t_nth)
  qed
  then show ?thesis
    by (simp add: sorted_iff_nth_mono length_buildTimeline)
qed

lemma timestamps_Nil: "timestamps [] = []"
  by (simp add: timestamps_def)

lemma timestamps_Nil_iff: "timestamps points = [] \<longleftrightarrow> points = []"
  using length_timestamps [of points] by auto

lemma buildTimeline_Nil_iff: "buildTimeline points = [] \<longleftrightarrow> points = []"
  using length_buildTimeline [of points] by auto

lemma timestamps_single_sample: "timestamps single_sample = [5]"
  by (simp add: single_sample_def timestamps_def sample_at_def)

lemma timestamps_scenario_asteroid: "timestamps scenario_asteroid = [0, 100, 200]"
  by (simp add: scenario_asteroid_def timestamps_def sample_at_def upt_rec)

lemma timestamps_scenario_earth: "timestamps scenario_earth = [50, 150, 250]"
  by (simp add: scenario_earth_def timestamps_def sample_at_def upt_rec)

lemma timestamps_unordered_asteroid: "timestamps unordered_asteroid = [5, 0, 10]"
  by (simp add: unordered_asteroid_def timestamps_def sample_at_def upt_rec)

lemma timestamps_index_timed: "timestamps index_timed = [0, 1, 200]"
  by (simp add: index_timed_def timestamps_def sample_at_def upt_rec)

subsection \<open>Normalised progress values\<close>

text \<open>
  Claim C2, as stated: for every non-empty input with non-decreasing timestamps the
  timeline's \<open>t\<close> values are non-decreasing, the first is 0 and the last is 1, also for a
  single sample.  A single sample is both the first and the last entry; \<open>buildTimeline\<close>
  gives the last index the value 1, so the first \<open>t\<close> of a one-entry timeline is 1, not 0.
\<close>

theorem buildTimeline_single_sample_counterexample:
  "single_sample \<noteq> [] \<and> sorted (timestamps single_sample) \<and>
   map tp_t (buildTimeline single_sample) = [1] \<and>
   tp_t (hd (buildTimeline single_sample)) \<noteq> 0"
  by (simp add: buildTimeline_def timestamps_single_sample)
    (simp add: single_sample_def)

text \<open>
  Claim C2, amended: for every non-empty input with non-decreasing timestamps the \<open>t\<close>
  values are non-decreasing and the last one is exactly 1; the first one is exactly 0 as
  soon as there are two samples, and a single sample yields the one-entry timeline with
  \<open>t = 1\<close>.
\<close>

theorem buildTimeline_ordered:
  assumes "points \<noteq> []" and "sorted (timestamps points)"
  shows "sorted (map tp_t (buildTimeline points)) \<and>
         tp_t (last (buildTimeline points)) = 1 \<and>
         (2 \<le> length points \<longrightarrow> tp_t (hd (buildTimeline points)) = 0) \<and>
         (length points = 1 \<longrightarrow> map tp_t (buildTimeline points) = [1])"
proof -
  have l: "tp_t (last (buildTimeline points)) = 1"
    using assms(1) by (rule buildTimeline_t_last)
  have h: "tp_t (hd (buildTimeline points)) = 0" if "2 \<le> length points"
    using that by (rule buildTimeline_t_hd)
  have o: "map tp_t (buildTimeline points) = [1]" if "length points = 1"
  proof -
    have "length (map tp_t (buildTimeline points)) = 1"
      using that by (simp add: length_buildTimeline)
    moreover have "map tp_t (buildTimeline points) ! 0 = 1"
      using that by (simp add: length_buildTimeline buildTimeline_t_nth)
    ultimately show ?thesis
      by (metis One_nat_def length_0_conv length_Suc_conv nth_Cons_0)
  qed
  show ?thesis
    using buildTimeline_sorted [OF assms] l h o by blast
qed

theorem buildTimeline_ordered_witness:
  "scenario_asteroid \<noteq> [] \<and> sorted (timestamps scenario_asteroid) \<and>
   2 \<le> length scenario_asteroid \<and>
   sorted (map tp_t (buildTimeline scenario_asteroid)) \<and>
   tp_t (last (buildTimeline scenario_asteroid)) = 1 \<and>
   tp_t (hd (buildTimeline scenario_asteroid)) = 0 \<and>
   single_sample \<noteq> [] \<and> sorted (timestamps single_sample) \<and> length single_sample = 1 \<and>
   map tp_t (buildTimeline single_sample) = [1]"
proof -
  have a1: "scenario_asteroid \<noteq> []" and a3: "2 \<le> length scenario_asteroid"
    by (simp_all add: scenario_asteroid_def)
  have a2: "sorted (timestamps scenario_asteroid)"
    by (simp add: timestamps_scenario_asteroid)
  have b1: "single_sample \<noteq> []" and b3: "length single_sample = 1"
    by (simp_all add: single_sample_def)
  have b2: "sorted (timestamps single_sample)"
    by (simp add: timestamps_single_sample)
  show ?thesis
    using buildTimeline_ordered [OF a1 a2] buildTimeline_ordered [OF b1 b2] a1 a2 a3 b1 b2 b3
    by simp
qed

text \<open>
  Claim C4.  For at least two samples whose timestamps are non-decreasing and not all
  equal, the span is \<open>last - first\<close>, every entry has
  \<open>t = clamp ((timestamp - first) / span, 0, 1)\<close>, the \<open>t\<close> values are non-decreasing, the
  first one is 0 and the last one is 1.
\<close>

theorem buildTimeline_unit_interval:
  assumes "2 \<le> length points" and "sorted (timestamps points)"
    and "\<not> (\<forall>a\<in>set (timestamps points). a = hd (timestamps points))"
  shows "length (buildTimeline points) = length points \<and>
         (\<forall>i<length points.
            tp_t (buildTimeline points ! i) =
              min (max ((timestamps points ! i - hd (timestamps points)) /
                        (last (timestamps points) - hd (timestamps points))) 0) 1) \<and>
         sorted (map tp_t (buildTimeline points)) \<and>
         tp_t (hd (buildTimeline points)) = 0 \<and>
         tp_t (last (buildTimeline points)) = 1"
proof -
  have pne: "points \<noteq> []" using assms(1) by auto
  have tne: "timestamps points \<noteq> []"
    using pne length_timestamps [of points] by auto
  have bne: "buildTimeline points \<noteq> []"
    using pne length_buildTimeline [of points] by auto
  from assms(3) obtain a where a: "a \<in> set (timestamps points)" "a \<noteq> hd (timestamps points)"
    by blast
  then obtain k where k: "k < length (timestamps points)" "timestamps points ! k = a"
    by (auto simp: in_set_conv_nth)
  have "hd (timestamps points) \<le> a"
    using assms(2) k tne by (metis hd_conv_nth sorted_iff_nth_mono zero_le)
  moreover have "a \<le> last (timestamps points)"
    using assms(2) k tne
    by (metis last_conv_nth sorted_iff_nth_mono Suc_diff_1 diff_less length_greater_0_conv
        less_Suc_eq_le zero_less_one)
  ultimately have lt: "hd (timestamps points) < last (timestamps points)"
    using a(2) by linarith
  then have sp: "span points = last (timestamps points) - hd (timestamps points)"
    using pne by (simp add: span_hd_last)
  have lastn: "timestamps points ! (length points - 1) = last (timestamps points)"
    using tne by (simp add: last_conv_nth length_timestamps)
  have f: "tp_t (buildTimeline points ! i) =
              min (max ((timestamps points ! i - hd (timestamps points)) /
                        (last (timestamps points) - hd (timestamps points))) 0) 1"
    if "i < length points" for i
  proof (cases "i = length points - 1")
    case True
    then show ?thesis
      using that lt lastn by (simp add: buildTimeline_t_nth)
  next
    case False
    then show ?thesis
      using that by (simp add: buildTimeline_t_nth sp)
  qed
  have h: "tp_t (hd (buildTimeline points)) = 0"
    using assms(1) by (rule buildTimeline_t_hd)
  have l: "tp_t (last (buildTimeline points)) = 1"
    using pne by (rule buildTimeline_t_last)
  show ?thesis
    using f h l buildTimeline_sorted [OF pne assms(2)] length_buildTimeline [of points]
    by blast
qed

theorem buildTimeline_unit_interval_witness:
  "2 \<le> length index_timed \<and> sorted (timestamps index_timed) \<and>
   \<not> (\<forall>a\<in>set (timestamps index_timed). a = hd (timestamps index_timed)) \<and>
   length (buildTimeline index_timed) = 3 \<and>
   tp_t (buildTimeline index_timed ! 1) = 1 / 200 \<and>
   sorted (map tp_t (buildTimeline index_timed)) \<and>
   tp_t (hd (buildTimeline index_timed)) = 0 \<and>
   tp_t (last (buildTimeline index_timed)) = 1"
proof -
  have h1: "2 \<le> length index_timed" by (simp add: index_timed_def)
  have h2: "sorted (timestamps index_timed)" by (simp add: timestamps_index_timed)
  have h3: "\<not> (\<forall>a\<in>set (timestamps index_timed). a = hd (timestamps index_timed))"
    by (simp add: timestamps_index_timed)
  have len: "length index_timed = 3" by (simp add: index_timed_def)
  show ?thesis
    using buildTimeline_unit_interval [OF h1 h2 h3] h1 h2 h3
    by (simp add: len timestamps_index_timed)
qed

section \<open>Sampling timelines\<close>

subsection \<open>The binary search\<close>

lemma lerpVectors_same:
  "fl 0 = 0 \<Longrightarrow> representable fl v \<Longrightarrow> lerpVectors fl v v alpha = v"
  by (simp add: lerpVectors_def representable_def)

lemma lerpVectors_exact_one: "lerpVectors (\<lambda>x. x) v w 1 = w"
  by (simp add: lerpVectors_def)

lemma bsearch_none_below:
  "(\<And>i. lo \<le> i \<Longrightarrow> i < hi \<Longrightarrow> \<not> tp_t (tline ! i) < c) \<Longrightarrow> bsearch tline c lo hi = lo"
proof (induction tline c lo hi rule: bsearch.induct)
  case (1 tline c lo hi)
  show ?case
  proof (cases "lo < hi")
    case True
    then have m: "lo \<le> (lo + hi) div 2" "(lo + hi) div 2 < hi" by auto
    then have nb: "\<not> tp_t (tline ! ((lo + hi) div 2)) < c"
      using "1.prems" by blast
    have "bsearch tline c lo ((lo + hi) div 2) = lo"
      using "1.IH"(2) [OF True nb] "1.prems" m by auto
    then show ?thesis
      using True nb by (subst bsearch.simps) simp
  next
    case False
    then show ?thesis by (subst bsearch.simps) simp
  qed
qed

lemma bsearch_lower_bound:
  assumes "sorted (map tp_t tline)" and "hi < length tline" and "lo \<le> hi"
    and "\<And>i. i < lo \<Longrightarrow> tp_t (tline ! i) < c" and "c \<le> tp_t (tline ! hi)"
  shows "lo \<le> bsearch tline c lo hi \<and> bsearch tline c lo hi \<le> hi \<and>
         c \<le> tp_t (tline ! bsearch tline c lo hi) \<and>
         (\<forall>i < bsearch tline c lo hi. tp_t (tline ! i) < c)"
  using assms
proof (induction tline c lo hi rule: bsearch.induct)
  case (1 tline c lo hi)
  show ?case
  proof (cases "lo < hi")
    case False
    then have "bsearch tline c lo hi = lo" by (subst bsearch.simps) simp
    then show ?thesis using "1.prems" False by auto
  next
    case True
    let ?mid = "(lo + hi) div 2"
    have m: "lo \<le> ?mid" "?mid < hi" using True by auto
    show ?thesis
    proof (cases "tp_t (tline ! ?mid) < c")
      case below: True
      have eq: "bsearch tline c lo hi = bsearch tline c (?mid + 1) hi"
        using True below by (subst bsearch.simps) simp
      have low: "tp_t (tline ! i) < c" if "i < ?mid + 1" for i
      proof -
        have "i \<le> ?mid" using that by simp
        moreover have "?mid < length (map tp_t tline)" using m "1.prems"(2) by simp
        ultimately have "map tp_t tline ! i \<le> map tp_t tline ! ?mid"
          using "1.prems"(1) by (simp add: sorted_iff_nth_mono)
        then show ?thesis
          using below m "1.prems"(2) \<open>i \<le> ?mid\<close> by simp
      qed
      have "?mid + 1 \<le> hi" using m by simp
      from "1.IH"(1) [OF True below "1.prems"(1) "1.prems"(2) this low "1.prems"(5)]
      show ?thesis
        using eq m by auto
    next
      case notbelow: False
      have eq: "bsearch tline c lo hi = bsearch tline c lo ?mid"
        using True notbelow by (subst bsearch.simps) simp
      have "?mid < length tline" using m "1.prems"(2) by simp
      moreover have "c \<le> tp_t (tline ! ?mid)" using notbelow by simp
      ultimately
      have "lo \<le> bsearch tline c lo ?mid \<and> bsearch tline c lo ?mid \<le> ?mid \<and>
         c \<le> tp_t (tline ! bsearch tline c lo ?mid) \<and>
         (\<forall>i < bsearch tline c lo ?mid. tp_t (tline ! i) < c)"
        using "1.IH"(2) [OF True notbelow "1.prems"(1) _ m(1) "1.prems"(4)] by blast
      then show ?thesis
        using eq m by auto
    qed
  qed
qed

lemma sampleTimeline_at_first:
  assumes "tline \<noteq> []" and "fl 0 = 0" and "representable fl (tp_position (tline ! 0))"
    and "bsearch tline (min (max p 0) 1) 0 (length tline - 1) = 0"
  shows "map_option sample_position (sampleTimeline fl tline p) = Some (tp_position (tline ! 0))"
  unfolding sampleTimeline_def Let_def assms(4)
  using assms(1,2,3) by (simp add: lerpVectors_same)

lemma sampleTimeline_zero:
  assumes "tline \<noteq> []" and "\<forall>p\<in>set tline. 0 \<le> tp_t p" and "fl 0 = 0"
    and "\<forall>p\<in>set tline. representable fl (tp_position p)"
  shows "map_option sample_position (sampleTimeline fl tline 0) = Some (tp_position (hd tline))"
proof -
  have "\<not> tp_t (tline ! i) < 0" if "i < length tline - 1" for i
  proof -
    have "tline ! i \<in> set tline" using that by simp
    then show ?thesis using assms(2) by (simp add: not_less)
  qed
  then have "bsearch tline 0 0 (length tline - 1) = 0"
    by (intro bsearch_none_below) simp
  then have b: "bsearch tline (min (max 0 0) 1) 0 (length tline - 1) = 0" by simp
  have "tline ! 0 \<in> set tline" using assms(1) by simp
  then have r: "representable fl (tp_position (tline ! 0))" using assms(4) by blast
  from sampleTimeline_at_first [OF assms(1,3) r b] show ?thesis
    using assms(1) by (simp add: hd_conv_nth)
qed

lemma sampleTimeline_one:
  assumes "sorted (map tp_t tline)" and "k < length tline" and "tp_t (tline ! k) = 1"
    and "\<forall>j<k. tp_t (tline ! j) < 1 \<and> 0 < fl (1 - tp_t (tline ! j))"
    and "fl 0 = 0" and "fl 1 = 1" and "\<forall>p\<in>set tline. representable fl (tp_position p)"
  shows "map_option sample_position (sampleTimeline fl tline 1) =
           Some (if k = 0 then tp_position (tline ! 0)
                 else lerpVectors fl (tp_position (tline ! (k - 1))) (tp_position (tline ! k)) 1)"
proof -
  have ne: "tline \<noteq> []" using assms(2) by auto
  let ?hi = "length tline - 1"
  let ?r = "bsearch tline 1 0 ?hi"
  have hi: "?hi < length tline" using ne by simp
  have "map tp_t tline ! k \<le> map tp_t tline ! ?hi"
    using assms(1,2) hi by (intro sorted_nth_mono) auto
  then have top: "1 \<le> tp_t (tline ! ?hi)"
    using assms(2,3) hi by simp
  have r: "?r \<le> ?hi \<and> 1 \<le> tp_t (tline ! ?r) \<and> (\<forall>i < ?r. tp_t (tline ! i) < 1)"
    using bsearch_lower_bound [OF assms(1) hi _ _ top, of 0] by simp
  have "\<not> k < ?r" using r assms(3) by auto
  moreover have "\<not> ?r < k" using r assms(4) by auto
  ultimately have rk: "?r = k" by simp
  have c1: "min (max (1::real) 0) 1 = 1" by simp
  have rk': "bsearch tline (min (max 1 0) 1) 0 (length tline - 1) = k"
    using rk by (simp only: c1)
  show ?thesis
  proof (cases "k = 0")
    case True
    then have b: "bsearch tline (min (max 1 0) 1) 0 ?hi = 0" using rk' by simp
    have "tline ! 0 \<in> set tline" using ne by simp
    then have rp: "representable fl (tp_position (tline ! 0))" using assms(7) by blast
    from sampleTimeline_at_first [OF ne assms(5) rp b] show ?thesis using True by simp
  next
    case False
    then have lowk: "nat (max 0 (int k - 1)) = k - 1" by simp
    have lt: "tp_t (tline ! (k - 1)) < 1" and pos: "0 < fl (1 - tp_t (tline ! (k - 1)))"
      using assms(4) False by simp_all
    show ?thesis
      unfolding sampleTimeline_def Let_def rk' lowk
      using ne assms(2,3,6) lt pos False
      by simp
  qed
qed

lemma buildTimeline_repeated_final_timestamp:
  "buildTimeline repeated_final_timestamp =
     [\<lparr>tp_t = 0, tp_position = \<lparr>vx = 1 / 149600, vy = 0, vz = 0\<rparr>, tp_timestamp = 0\<rparr>,
      \<lparr>tp_t = 1, tp_position = \<lparr>vx = 2 / 149600, vy = 0, vz = 0\<rparr>, tp_timestamp = 10\<rparr>,
      \<lparr>tp_t = 1, tp_position = \<lparr>vx = 3 / 149600, vy = 0, vz = 0\<rparr>, tp_timestamp = 10\<rparr>]"
  by (simp add: repeated_final_timestamp_def buildTimeline_def timestamps_def span_def
      sample_at_def toScaledVector_def factor_def assumeMeters_def maxAbs_def multiplyScalar_def
      SCALE_FACTOR_def upt_rec)

lemma coarse_fl_values:
  "coarse_fl 0 = 0" "coarse_fl 1 = 1" "coarse_fl 20 = 20" "coarse_fl (- 19) = - 20"
  "coarse_fl (- 20) = - 20"
  by (simp_all add: coarse_fl_def round_def)

subsection \<open>The two ends of a timeline\<close>

text \<open>
  Claim C5, as stated: on every non-empty timeline with non-decreasing \<open>t\<close>, progress 0
  yields the first sample's position and progress 1 the last sample's position.  The search
  stops at the first entry with \<open>t \<ge> 1\<close>.  When the final timestamp is repeated,
  \<open>buildTimeline\<close> gives both final entries \<open>t = 1\<close>, and progress 1 yields the position
  of the earlier one.  The evaluation is without rounding; in this timeline the second
  position is twice the first, so that the interpolation \<open>a + (b - a)\<close> is exact in
  binary64 as well.
\<close>

theorem sampleTimeline_end_counterexample:
  "buildTimeline repeated_final_timestamp \<noteq> [] \<and>
   map tp_t (buildTimeline repeated_final_timestamp) = [0, 1, 1] \<and>
   sorted (map tp_t (buildTimeline repeated_final_timestamp)) \<and>
   map_option sample_position (sampleTimeline id (buildTimeline repeated_final_timestamp) 1) =
     Some (tp_position (buildTimeline repeated_final_timestamp ! 1)) \<and>
   tp_position (buildTimeline repeated_final_timestamp ! 1) \<noteq>
     tp_position (last (buildTimeline repeated_final_timestamp)) \<and>
   map_option sample_position (sampleTimeline id (buildTimeline repeated_final_timestamp) 1) \<noteq>
     Some (tp_position (last (buildTimeline repeated_final_timestamp)))"
  by (simp add: buildTimeline_repeated_final_timestamp sampleTimeline_def bsearch.simps
      lerpVectors_def)

text \<open>
  Claim C5, amended: on every non-empty timeline whose \<open>t\<close> values are not negative,
  progress 0 yields exactly the first sample's position.  When moreover the \<open>t\<close> values are
  non-decreasing and entry \<open>k\<close> is the first one with \<open>t = 1\<close>, progress 1 yields exactly
  the first sample's position if \<open>k = 0\<close>, and otherwise the rounded value of
  \<open>a + (b - a) * 1\<close> for the positions \<open>a\<close> of entry \<open>k - 1\<close> and \<open>b\<close> of entry \<open>k\<close>;
  that value is \<open>b\<close> when nothing is rounded, and \<open>b\<close> is the last sample's position when
  every earlier entry has \<open>t < 1\<close>.  The rounding function is any function that keeps 0,
  1 and the stored positions and gives a positive difference \<open>1 - t\<close> for \<open>t < 1\<close>, as
  rounding to binary64 does.
\<close>

theorem sampleTimeline_endpoints:
  assumes "tline \<noteq> []" and "\<forall>p\<in>set tline. 0 \<le> tp_t p" and "fl 0 = 0"
    and "\<forall>p\<in>set tline. representable fl (tp_position p)"
  shows "map_option sample_position (sampleTimeline fl tline 0) = Some (tp_position (hd tline)) \<and>
         (sorted (map tp_t tline) \<and> fl 1 = 1 \<and> k < length tline \<and> tp_t (tline ! k) = 1 \<and>
          (\<forall>j<k. tp_t (tline ! j) < 1 \<and> 0 < fl (1 - tp_t (tline ! j))) \<longrightarrow>
            map_option sample_position (sampleTimeline fl tline 1) =
              Some (if k = 0 then tp_position (hd tline)
                    else lerpVectors fl (tp_position (tline ! (k - 1)))
                           (tp_position (tline ! k)) 1) \<and>
            ((\<forall>x. fl x = x) \<longrightarrow>
               map_option sample_position (sampleTimeline fl tline 1) =
                 Some (tp_position (tline ! k))) \<and>
            ((\<forall>x. fl x = x) \<and> k = length tline - 1 \<longrightarrow>
               map_option sample_position (sampleTimeline fl tline 1) =
                 Some (tp_position (last tline))))"
proof -
  have h0: "hd tline = tline ! 0"
    using assms(1) by (simp add: hd_conv_nth)
  have zero: "map_option sample_position (sampleTimeline fl tline 0) = Some (tp_position (hd tline))"
    using assms by (rule sampleTimeline_zero)
  have one: "map_option sample_position (sampleTimeline fl tline 1) =
              Some (if k = 0 then tp_position (hd tline)
                    else lerpVectors fl (tp_position (tline ! (k - 1)))
                           (tp_position (tline ! k)) 1)"
    if "sorted (map tp_t tline)" "fl 1 = 1" "k < length tline" "tp_t (tline ! k) = 1"
      "\<forall>j<k. tp_t (tline ! j) < 1 \<and> 0 < fl (1 - tp_t (tline ! j))"
    unfolding h0 by (rule sampleTimeline_one [OF that(1,3,4,5) assms(3) that(2) assms(4)])
  have exact: "map_option sample_position (sampleTimeline fl tline 1) = Some (tp_position (tline ! k))"
    if "sorted (map tp_t tline)" "fl 1 = 1" "k < length tline" "tp_t (tline ! k) = 1"
      "\<forall>j<k. tp_t (tline ! j) < 1 \<and> 0 < fl (1 - tp_t (tline ! j))" "\<forall>x. fl x = x"
  proof -
    have fl: "fl = (\<lambda>x. x)" using that(6) by auto
    have "(if k = 0 then tp_position (hd tline)
           else lerpVectors fl (tp_position (tline ! (k - 1))) (tp_position (tline ! k)) 1)
          = tp_position (tline ! k)"
      by (simp add: fl lerpVectors_exact_one h0)
    then show ?thesis using one [OF that(1-5)] by (simp only:)
  qed
  have lastk: "tp_position (tline ! k) = tp_position (last tline)" if "k = length tline - 1"
    using that assms(1) by (simp add: last_conv_nth)
  show ?thesis
  proof (intro conjI impI)
    show "map_option sample_position (sampleTimeline fl tline 0) = Some (tp_position (hd tline))"
      by (rule zero)
  next
    assume h: "sorted (map tp_t tline) \<and> fl 1 = 1 \<and> k < length tline \<and> tp_t (tline ! k) = 1 \<and>
          (\<forall>j<k. tp_t (tline ! j) < 1 \<and> 0 < fl (1 - tp_t (tline ! j)))"
    then show "map_option sample_position (sampleTimeline fl tline 1) =
              Some (if k = 0 then tp_position (hd tline)
                    else lerpVectors fl (tp_position (tline ! (k - 1)))
                           (tp_position (tline ! k)) 1)"
      using one by blast
    {
      assume "\<forall>x. fl x = x"
      then show "map_option sample_position (sampleTimeline fl tline 1) =
                 Some (tp_position (tline ! k))"
        using h exact by blast
    }
    {
      assume "(\<forall>x. fl x = x) \<and> k = length tline - 1"
      then show "map_option sample_position (sampleTimeline fl tline 1) =
                 Some (tp_position (last tline))"
        using h exact lastk by metis
    }
  qed
qed

text \<open>
  Two evaluations.  Under the coarse rounding, with positions 20 and 1, progress 0 yields
  20 and progress 1 yields 0, not 1: the difference \<open>1 - 20\<close> is rounded to \<open>- 20\<close>.
  Without rounding, the three-entry timeline yields its first position at progress 0 and
  its last position at progress 1.
\<close>

theorem sampleTimeline_endpoints_witness:
  "far_apart_timeline \<noteq> [] \<and> list_all (\<lambda>p. 0 \<le> tp_t p) far_apart_timeline \<and>
   coarse_fl 0 = 0 \<and> coarse_fl 1 = 1 \<and>
   list_all (\<lambda>p. representable coarse_fl (tp_position p)) far_apart_timeline \<and>
   sorted (map tp_t far_apart_timeline) \<and> 1 < length far_apart_timeline \<and>
   tp_t (far_apart_timeline ! 1) = 1 \<and> tp_t (far_apart_timeline ! 0) < 1 \<and>
   0 < coarse_fl (1 - tp_t (far_apart_timeline ! 0)) \<and>
   map_option sample_position (sampleTimeline coarse_fl far_apart_timeline 0) =
     Some \<lparr>vx = 20, vy = 0, vz = 0\<rparr> \<and>
   map_option sample_position (sampleTimeline coarse_fl far_apart_timeline 1) =
     Some \<lparr>vx = 0, vy = 0, vz = 0\<rparr> \<and>
   tp_position (far_apart_timeline ! 1) = \<lparr>vx = 1, vy = 0, vz = 0\<rparr> \<and>
   three_point_timeline \<noteq> [] \<and> list_all (\<lambda>p. 0 \<le> tp_t p) three_point_timeline \<and>
   sorted (map tp_t three_point_timeline) \<and> 2 < length three_point_timeline \<and>
   tp_t (three_point_timeline ! 2) = 1 \<and>
   tp_t (three_point_timeline ! 0) < 1 \<and> tp_t (three_point_timeline ! 1) < 1 \<and>
   map_option sample_position (sampleTimeline (\<lambda>x. x) three_point_timeline 0) =
     Some \<lparr>vx = 1, vy = 0, vz = 0\<rparr> \<and>
   map_option sample_position (sampleTimeline (\<lambda>x. x) three_point_timeline 1) =
     Some \<lparr>vx = 3, vy = 0, vz = 0\<rparr> \<and>
   tp_position (last three_point_timeline) = \<lparr>vx = 3, vy = 0, vz = 0\<rparr>"
proof -
  have f1: "far_apart_timeline \<noteq> []"
    and f2: "\<forall>p\<in>set far_apart_timeline. 0 \<le> tp_t p"
    and f4: "\<forall>p\<in>set far_apart_timeline. representable coarse_fl (tp_position p)"
    and f5: "sorted (map tp_t far_apart_timeline)"
    and f6: "1 < length far_apart_timeline"
    and f7: "tp_t (far_apart_timeline ! 1) = 1"
    and f8: "tp_t (far_apart_timeline ! 0) < 1"
    and f9: "0 < coarse_fl (1 - tp_t (far_apart_timeline ! 0))"
    by (simp_all add: far_apart_timeline_def representable_def coarse_fl_values)
  have f10: "\<forall>j<1. tp_t (far_apart_timeline ! j) < 1 \<and>
                  0 < coarse_fl (1 - tp_t (far_apart_timeline ! j))"
    using f8 f9 by simp
  have fv: "tp_position (hd far_apart_timeline) = \<lparr>vx = 20, vy = 0, vz = 0\<rparr>"
    "lerpVectors coarse_fl (tp_position (far_apart_timeline ! 0))
       (tp_position (far_apart_timeline ! 1)) 1 = \<lparr>vx = 0, vy = 0, vz = 0\<rparr>"
    "tp_position (far_apart_timeline ! 1) = \<lparr>vx = 1, vy = 0, vz = 0\<rparr>"
    by (simp_all add: far_apart_timeline_def lerpVectors_def coarse_fl_values)
  have g1: "three_point_timeline \<noteq> []"
    and g2: "\<forall>p\<in>set three_point_timeline. 0 \<le> tp_t p"
    and g4: "\<forall>p\<in>set three_point_timeline. representable (\<lambda>x. x) (tp_position p)"
    and g5: "sorted (map tp_t three_point_timeline)"
    and g6: "2 < length three_point_timeline"
    and g7: "tp_t (three_point_timeline ! 2) = 1"
    and g8: "tp_t (three_point_timeline ! 0) < 1" "tp_t (three_point_timeline ! 1) < 1"
    by (simp_all add: three_point_timeline_def representable_def)
  have g10: "\<forall>j<2. tp_t (three_point_timeline ! j) < 1 \<and>
                  0 < (\<lambda>x. x) (1 - tp_t (three_point_timeline ! j))"
    by (auto simp: three_point_timeline_def dest!: less_2_cases)
  have gv: "tp_position (hd three_point_timeline) = \<lparr>vx = 1, vy = 0, vz = 0\<rparr>"
    "tp_position (three_point_timeline ! 2) = \<lparr>vx = 3, vy = 0, vz = 0\<rparr>"
    "tp_position (last three_point_timeline) = \<lparr>vx = 3, vy = 0, vz = 0\<rparr>"
    by (simp_all add: three_point_timeline_def)
  have l1: "list_all (\<lambda>p. 0 \<le> tp_t p) far_apart_timeline"
    "list_all (\<lambda>p. representable coarse_fl (tp_position p)) far_apart_timeline"
    "list_all (\<lambda>p. 0 \<le> tp_t p) three_point_timeline"
    using f2 f4 g2 by (simp_all add: list_all_iff)
  have far: "map_option sample_position (sampleTimeline coarse_fl far_apart_timeline 0) =
               Some \<lparr>vx = 20, vy = 0, vz = 0\<rparr> \<and>
             map_option sample_position (sampleTimeline coarse_fl far_apart_timeline 1) =
               Some \<lparr>vx = 0, vy = 0, vz = 0\<rparr>"
    using sampleTimeline_endpoints [OF f1 f2 coarse_fl_values(1) f4, of 1]
      f5 f6 f7 f10 fv coarse_fl_values(2) by simp
  have three: "map_option sample_position (sampleTimeline (\<lambda>x. x) three_point_timeline 0) =
                 Some \<lparr>vx = 1, vy = 0, vz = 0\<rparr> \<and>
               map_option sample_position (sampleTimeline (\<lambda>x. x) three_point_timeline 1) =
                 Some \<lparr>vx = 3, vy = 0, vz = 0\<rparr>"
    using sampleTimeline_endpoints [OF g1 g2 _ g4, of 2] g5 g6 g7 g10 gv by simp
  show ?thesis
    using far three f1 f5 f6 f7 f8 f9 g1 g5 g6 g7 g8 l1 fv(3) gv(3) coarse_fl_values(1,2)
    by simp
qed

section \<open>The playback clock\<close>

subsection \<open>Frames\<close>

lemma animate_playing: "isPlaybackPlayingRef (animate s deltaMs) = isPlaybackPlayingRef s"
  by (simp add: animate_def Let_def)

lemma animate_duration: "playbackDurationRef (animate s deltaMs) = playbackDurationRef s"
  by (simp add: animate_def Let_def)

lemma animate_frames_playing:
  "isPlaybackPlayingRef (animate_frames s frames) = isPlaybackPlayingRef s"
  by (induction frames arbitrary: s) (simp_all add: animate_playing)

text \<open>
  Claim C6.  In a playing state, a frame whose increment takes progress to 1 or beyond ends
  with progress exactly 0 and still playing; no run of frames ever stops the clock.
\<close>

theorem animate_loops:
  assumes "isPlaybackPlayingRef s" and "0 < duration s" and "0 < deltaMs"
    and "1 \<le> playbackProgressRef s + deltaMs / duration s"
  shows "playbackProgressRef (animate s deltaMs) = 0 \<and>
         isPlaybackPlayingRef (animate s deltaMs) \<and>
         isPlaybackPlayingRef (animate_frames s frames)"
proof -
  have inc: "0 < deltaMs / duration s"
    using assms(2,3) by simp
  have "playbackProgressRef (animate s deltaMs) = 0"
    using assms(1,2,4) inc by (simp add: animate_def Let_def)
  then show ?thesis
    using assms(1) by (simp add: animate_playing animate_frames_playing)
qed

text \<open>
  The looping scenario of the specification: playing at progress 0.98 with the 15 s
  duration; one 400 ms frame, or three 100 ms frames, wrap progress to 0.
\<close>

theorem animate_loops_witness:
  "isPlaybackPlayingRef playing_near_end \<and> 0 < duration playing_near_end \<and> (0::real) < 400 \<and>
   1 \<le> playbackProgressRef playing_near_end + 400 / duration playing_near_end \<and>
   playbackProgressRef (animate playing_near_end 400) = 0 \<and>
   isPlaybackPlayingRef (animate playing_near_end 400) \<and>
   playbackProgressRef (animate_frames playing_near_end [100, 100, 100]) = 0 \<and>
   isPlaybackPlayingRef (animate_frames playing_near_end [100, 100, 100])"
proof -
  have h1: "isPlaybackPlayingRef playing_near_end"
    and h2: "0 < duration playing_near_end"
    and h4: "1 \<le> playbackProgressRef playing_near_end + 400 / duration playing_near_end"
    by (simp_all add: playing_near_end_def duration_def)
  have h3: "(0::real) < 400" by simp
  have r: "playbackProgressRef (animate_frames playing_near_end [100, 100, 100]) = 0"
    by (simp add: playing_near_end_def animate_def duration_def Let_def)
  show ?thesis
    using animate_loops [OF h1 h2 h3 h4, of "[100, 100, 100]"] h1 h2 h4 r by simp
qed

subsection \<open>Loading simulation data\<close>

lemma resetPlayback_fields:
  "playbackProgressRef (resetPlayback s) = 0" "\<not> isPlaybackPlayingRef (resetPlayback s)"
  by (simp_all add: resetPlayback_def Let_def)

lemma globalTimestampSpan_playback:
  "playbackProgressRef (globalTimestampSpan s) = playbackProgressRef s"
  "isPlaybackPlayingRef (globalTimestampSpan s) = isPlaybackPlayingRef s"
  by (simp_all add: globalTimestampSpan_def Let_def)

lemma simulationDataEffect_reset:
  assumes "sceneRef s" and "simulationData = None \<or> simulationMode = Some preview"
  shows "playbackProgressRef (simulationDataEffect s simulationData simulationMode) = 0"
    and "\<not> isPlaybackPlayingRef (simulationDataEffect s simulationData simulationMode)"
  using assms
  by (auto simp: simulationDataEffect_def resetPlayback_fields split: option.splits)

lemma simulationDataEffect_full:
  assumes "sceneRef s" and "simulationMode \<noteq> Some preview"
  shows "playbackProgressRef (simulationDataEffect s (Some d) simulationMode) =
           min (playbackProgressRef s) 1"
    and "isPlaybackPlayingRef (simulationDataEffect s (Some d) simulationMode) =
           isPlaybackPlayingRef s"
  using assms
  by (simp_all add: simulationDataEffect_def Let_def globalTimestampSpan_playback)

text \<open>
  Claim C1, as stated: whenever new timelines are loaded the playback state is reset to
  progress 0 and not playing, whatever it was before.  The full-simulation path, the only
  one that builds timelines, does not call \<open>resetPlayback\<close>: it caps progress at 1 and
  leaves the playing flag alone.
\<close>

theorem simulationDataEffect_full_load_counterexample:
  "playbackProgressRef
     (simulationDataEffect playing_midway
        (Some \<lparr>asteroid_trajectory = scenario_asteroid, earth_trajectory = scenario_earth\<rparr>)
        (Some full)) = 1 / 2 \<and>
   playbackProgressRef
     (simulationDataEffect playing_midway
        (Some \<lparr>asteroid_trajectory = scenario_asteroid, earth_trajectory = scenario_earth\<rparr>)
        (Some full)) \<noteq> 0 \<and>
   isPlaybackPlayingRef
     (simulationDataEffect playing_midway
        (Some \<lparr>asteroid_trajectory = scenario_asteroid, earth_trajectory = scenario_earth\<rparr>)
        (Some full))"
proof -
  have sc: "sceneRef playing_midway" by (simp add: playing_midway_def)
  have md: "Some full \<noteq> Some preview" by simp
  show ?thesis
    unfolding simulationDataEffect_full [OF sc md]
    by (simp add: playing_midway_def)
qed

text \<open>
  Claim C1, amended: once the scene exists, the effect resets playback to progress 0 and
  not playing when the simulation data is cleared or a preview is loaded; when
  full-simulation timelines are loaded it keeps the playing flag and keeps progress, capped
  at 1.
\<close>

theorem simulationDataEffect_playback:
  assumes "sceneRef s"
  shows "(simulationData = None \<or> simulationMode = Some preview \<longrightarrow>
            playbackProgressRef (simulationDataEffect s simulationData simulationMode) = 0 \<and>
            \<not> isPlaybackPlayingRef (simulationDataEffect s simulationData simulationMode)) \<and>
         (simulationData \<noteq> None \<and> simulationMode \<noteq> Some preview \<longrightarrow>
            playbackProgressRef (simulationDataEffect s simulationData simulationMode) =
              min (playbackProgressRef s) 1 \<and>
            isPlaybackPlayingRef (simulationDataEffect s simulationData simulationMode) =
              isPlaybackPlayingRef s)"
  using simulationDataEffect_reset [OF assms] simulationDataEffect_full [OF assms]
  by auto

theorem simulationDataEffect_playback_witness:
  "sceneRef playing_midway \<and>
   playbackProgressRef (simulationDataEffect playing_midway None None) = 0 \<and>
   \<not> isPlaybackPlayingRef (simulationDataEffect playing_midway None None) \<and>
   playbackProgressRef
     (simulationDataEffect playing_midway
        (Some \<lparr>asteroid_trajectory = scenario_asteroid, earth_trajectory = []\<rparr>)
        (Some preview)) = 0 \<and>
   playbackProgressRef
     (simulationDataEffect playing_midway
        (Some \<lparr>asteroid_trajectory = scenario_asteroid, earth_trajectory = []\<rparr>)
        (Some full)) = min (playbackProgressRef playing_midway) 1"
proof -
  have sc: "sceneRef playing_midway" by (simp add: playing_midway_def)
  show ?thesis
    using sc simulationDataEffect_playback [OF sc, of None None]
      simulationDataEffect_playback [OF sc,
        of "Some \<lparr>asteroid_trajectory = scenario_asteroid, earth_trajectory = []\<rparr>"
           "Some preview"]
      simulationDataEffect_playback [OF sc,
        of "Some \<lparr>asteroid_trajectory = scenario_asteroid, earth_trajectory = []\<rparr>"
           "Some full"]
    by simp
qed

subsection \<open>The global timestamp span\<close>

lemma buildTimeline_first_timestamp:
  assumes "ps \<noteq> []"
  shows "tp_timestamp (buildTimeline ps ! 0) = hd (timestamps ps)"
proof -
  have "0 < length ps" using assms by simp
  then have "tp_timestamp (buildTimeline ps ! 0) = timestamps ps ! 0"
    by (simp add: buildTimeline_nth)
  then show ?thesis
    using assms by (simp add: hd_conv_nth timestamps_Nil_iff)
qed

lemma buildTimeline_last_timestamp:
  assumes "ps \<noteq> []"
  shows "tp_timestamp (buildTimeline ps ! (length (buildTimeline ps) - 1)) = last (timestamps ps)"
proof -
  have "length ps - 1 < length ps" using assms by simp
  then have "tp_timestamp (buildTimeline ps ! (length ps - 1)) = timestamps ps ! (length ps - 1)"
    by (simp add: buildTimeline_nth)
  then show ?thesis
    using assms by (simp add: last_conv_nth length_buildTimeline timestamps_Nil_iff length_timestamps)
qed

lemma starts_after_build:
  "starts (s\<lparr>asteroidAnimationRef :=
               (if length (buildTimeline a) > 0
                then Some \<lparr>timeline = buildTimeline a, durationMs = dur1\<rparr> else None),
             earthAnimationRef :=
               (if length (buildTimeline e) > 0
                then Some \<lparr>timeline = buildTimeline e, durationMs = dur2\<rparr> else None)\<rparr>) =
   (if a = [] then [] else [hd (timestamps a)]) @ (if e = [] then [] else [hd (timestamps e)])"
  by (simp add: starts_def buildTimeline_Nil_iff buildTimeline_first_timestamp)

lemma ends_after_build:
  "ends (s\<lparr>asteroidAnimationRef :=
               (if length (buildTimeline a) > 0
                then Some \<lparr>timeline = buildTimeline a, durationMs = dur1\<rparr> else None),
             earthAnimationRef :=
               (if length (buildTimeline e) > 0
                then Some \<lparr>timeline = buildTimeline e, durationMs = dur2\<rparr> else None)\<rparr>) =
   (if a = [] then [] else [last (timestamps a)]) @ (if e = [] then [] else [last (timestamps e)])"
  using buildTimeline_last_timestamp [of a] buildTimeline_last_timestamp [of e]
  by (simp add: ends_def buildTimeline_Nil_iff)

lemma simulationDataEffect_span:
  assumes "sceneRef s" and "simulationMode \<noteq> Some preview"
    and "asteroid_trajectory d \<noteq> [] \<or> earth_trajectory d \<noteq> []"
  shows "globalStartTsRef (simulationDataEffect s (Some d) simulationMode) =
           Some (Min (set ((if asteroid_trajectory d = [] then []
                            else [hd (timestamps (asteroid_trajectory d))]) @
                           (if earth_trajectory d = [] then []
                            else [hd (timestamps (earth_trajectory d))]))))"
    and "globalEndTsRef (simulationDataEffect s (Some d) simulationMode) =
           Some (Max (set ((if asteroid_trajectory d = [] then []
                            else [last (timestamps (asteroid_trajectory d))]) @
                           (if earth_trajectory d = [] then []
                            else [last (timestamps (earth_trajectory d))]))))"
proof -
  have ne: "length ((if asteroid_trajectory d = [] then []
                            else [hd (timestamps (asteroid_trajectory d))]) @
                           (if earth_trajectory d = [] then []
                            else [hd (timestamps (earth_trajectory d))])) \<noteq> 0"
       "length ((if asteroid_trajectory d = [] then []
                            else [last (timestamps (asteroid_trajectory d))]) @
                           (if earth_trajectory d = [] then []
                            else [last (timestamps (earth_trajectory d))])) \<noteq> 0"
    using assms(3) by auto
  show "globalStartTsRef (simulationDataEffect s (Some d) simulationMode) =
           Some (Min (set ((if asteroid_trajectory d = [] then []
                            else [hd (timestamps (asteroid_trajectory d))]) @
                           (if earth_trajectory d = [] then []
                            else [hd (timestamps (earth_trajectory d))]))))"
    using assms(1,2) ne
    unfolding simulationDataEffect_def Let_def globalTimestampSpan_def starts_after_build
      ends_after_build Math_min_def Math_max_def
    by simp
  show "globalEndTsRef (simulationDataEffect s (Some d) simulationMode) =
           Some (Max (set ((if asteroid_trajectory d = [] then []
                            else [last (timestamps (asteroid_trajectory d))]) @
                           (if earth_trajectory d = [] then []
                            else [last (timestamps (earth_trajectory d))]))))"
    using assms(1,2) ne
    unfolding simulationDataEffect_def Let_def globalTimestampSpan_def starts_after_build
      ends_after_build Math_min_def Math_max_def
    by simp
qed

lemma sorted_Min_hd:
  assumes "xs \<noteq> []" and "sorted xs"
  shows "Min (set xs) = hd (xs :: real list)"
proof (rule Min_eqI)
  show "finite (set xs)" by simp
  show "hd xs \<in> set xs" using assms(1) by simp
  fix y assume "y \<in> set xs"
  then obtain i where "i < length xs" "xs ! i = y" by (auto simp: in_set_conv_nth)
  then show "hd xs \<le> y"
    using assms by (metis hd_conv_nth sorted_iff_nth_mono zero_le)
qed

lemma sorted_Max_last:
  assumes "xs \<noteq> []" and "sorted xs"
  shows "Max (set xs) = last (xs :: real list)"
proof (rule Max_eqI)
  show "finite (set xs)" by simp
  show "last xs \<in> set xs" using assms(1) by simp
  fix y assume "y \<in> set xs"
  then obtain i where i: "i < length xs" "xs ! i = y" by (auto simp: in_set_conv_nth)
  then have "i \<le> length xs - 1" by simp
  moreover have "length xs - 1 < length xs" using assms(1) by simp
  ultimately have "xs ! i \<le> xs ! (length xs - 1)"
    using assms(2) by (simp add: sorted_iff_nth_mono)
  then show "y \<le> last xs"
    using i assms(1) by (simp add: last_conv_nth)
qed

text \<open>
  Claim C7, as stated: after the timelines are built, the global start is the minimum and
  the global end the maximum timestamp across all present timelines.  The effect reads the
  first and the last entry of each timeline, and \<open>buildTimeline\<close> keeps the input order,
  so a trajectory whose smallest timestamp is not its first one gives another start.
\<close>

theorem global_span_unordered_counterexample:
  "sceneRef playing_midway \<and> unordered_asteroid \<noteq> [] \<and>
   globalStartTsRef
     (simulationDataEffect playing_midway
        (Some \<lparr>asteroid_trajectory = unordered_asteroid, earth_trajectory = []\<rparr>) (Some full))
     = Some 5 \<and>
   Min (set (timestamps unordered_asteroid @ timestamps [])) = 0"
proof -
  have sc: "sceneRef playing_midway" by (simp add: playing_midway_def)
  have md: "Some full \<noteq> Some preview" by simp
  have ne: "asteroid_trajectory \<lparr>asteroid_trajectory = unordered_asteroid, earth_trajectory = []\<rparr> \<noteq> []
     \<or> earth_trajectory \<lparr>asteroid_trajectory = unordered_asteroid, earth_trajectory = []\<rparr> \<noteq> []"
    by (simp add: unordered_asteroid_def)
  have un: "unordered_asteroid \<noteq> []" by (simp add: unordered_asteroid_def)
  show ?thesis
    unfolding simulationDataEffect_span(1) [OF sc md ne]
    using sc un by (simp add: timestamps_unordered_asteroid timestamps_Nil)
qed

text \<open>
  Claim C7, amended: after the timelines are built from data with at least one non-empty
  trajectory, each with non-decreasing timestamps, the global start is the minimum and the
  global end the maximum timestamp across all present timelines.
\<close>

theorem simulationDataEffect_global_span:
  assumes "sceneRef s" and "simulationMode \<noteq> Some preview"
    and "asteroid_trajectory d \<noteq> [] \<or> earth_trajectory d \<noteq> []"
    and "sorted (timestamps (asteroid_trajectory d))"
    and "sorted (timestamps (earth_trajectory d))"
  shows "globalStartTsRef (simulationDataEffect s (Some d) simulationMode) =
           Some (Min (set (timestamps (asteroid_trajectory d) @ timestamps (earth_trajectory d)))) \<and>
         globalEndTsRef (simulationDataEffect s (Some d) simulationMode) =
           Some (Max (set (timestamps (asteroid_trajectory d) @ timestamps (earth_trajectory d))))"
proof -
  let ?a = "timestamps (asteroid_trajectory d)" and ?e = "timestamps (earth_trajectory d)"
  have an: "?a = [] \<longleftrightarrow> asteroid_trajectory d = []"
    using length_timestamps [of "asteroid_trajectory d"] by auto
  have en: "?e = [] \<longleftrightarrow> earth_trajectory d = []"
    using length_timestamps [of "earth_trajectory d"] by auto
  have mn: "Min (set (?a @ ?e)) =
        Min (set ((if asteroid_trajectory d = [] then [] else [hd ?a]) @
                  (if earth_trajectory d = [] then [] else [hd ?e])))"
    using assms(3) an en sorted_Min_hd [OF _ assms(4)] sorted_Min_hd [OF _ assms(5)]
    by (auto simp: Min_Un min.commute)
  have mx: "Max (set (?a @ ?e)) =
        Max (set ((if asteroid_trajectory d = [] then [] else [last ?a]) @
                  (if earth_trajectory d = [] then [] else [last ?e])))"
    using assms(3) an en sorted_Max_last [OF _ assms(4)] sorted_Max_last [OF _ assms(5)]
    by (auto simp: Max_Un max.commute)
  show ?thesis
    unfolding simulationDataEffect_span [OF assms(1,2,3)] mn mx by simp
qed

text \<open>The scenario of the specification: the span is from 0 to 250.\<close>

theorem simulationDataEffect_global_span_witness:
  "sceneRef playing_midway \<and> Some full \<noteq> Some preview \<and>
   sorted (timestamps scenario_asteroid) \<and> sorted (timestamps scenario_earth) \<and>
   globalStartTsRef
     (simulationDataEffect playing_midway
        (Some \<lparr>asteroid_trajectory = scenario_asteroid, earth_trajectory = scenario_earth\<rparr>)
        (Some full)) = Some 0 \<and>
   globalEndTsRef
     (simulationDataEffect playing_midway
        (Some \<lparr>asteroid_trajectory = scenario_asteroid, earth_trajectory = scenario_earth\<rparr>)
        (Some full)) = Some 250"
proof -
  let ?d = "\<lparr>asteroid_trajectory = scenario_asteroid, earth_trajectory = scenario_earth\<rparr>"
  have sc: "sceneRef playing_midway" by (simp add: playing_midway_def)
  have md: "Some full \<noteq> Some preview" by simp
  have ne: "asteroid_trajectory ?d \<noteq> [] \<or> earth_trajectory ?d \<noteq> []"
    by (simp add: scenario_asteroid_def)
  have sa: "sorted (timestamps (asteroid_trajectory ?d))"
    by (simp add: timestamps_scenario_asteroid)
  have se: "sorted (timestamps (earth_trajectory ?d))"
    by (simp add: timestamps_scenario_earth)
  show ?thesis
    using simulationDataEffect_global_span [OF sc md ne sa se] sc sa se
    by (simp add: timestamps_scenario_asteroid timestamps_scenario_earth)
qed

section \<open>Orbit diagnostics\<close>

lemma rs_unit_points: "map length_v3 unit_points = [1, 1, 1, 1]"
  by (simp add: unit_points_def length_v3_def)

text \<open>
  Claim C3, as stated: with reference metadata, each of the four percentages is reported
  as zero when its reference value is zero.  Only \<open>e_pct\<close> tests its reference value;
  \<open>a_pct\<close>, \<open>q_pct\<close> and \<open>Q_pct\<close> divide by it, and a zero reference \<open>a\<close> gives a
  non-finite percentage.
\<close>

theorem analyzeOrbit_zero_reference_counterexample:
  "map_option (a_pct \<circ> percent)
     (analyzeOrbit unit_points
        (Some \<lparr>meta_a_au = 0, meta_e = 1 / 2, meta_q_au = 1, meta_Q_au = 1\<rparr>)) = Some None \<and>
   map_option (a_pct \<circ> percent)
     (analyzeOrbit unit_points
        (Some \<lparr>meta_a_au = 0, meta_e = 1 / 2, meta_q_au = 1, meta_Q_au = 1\<rparr>)) \<noteq> Some (Some 0)"
  by (simp add: analyzeOrbit_def rs_unit_points Let_def js_div_def unit_points_def)

text \<open>
  Claim C3, amended: with reference metadata, \<open>e_pct\<close> is reported as zero when the
  reference eccentricity is zero and is otherwise the relative error of the derived
  eccentricity; \<open>a_pct\<close>, \<open>q_pct\<close> and \<open>Q_pct\<close> are the relative errors in percent when
  their reference value is not zero, and non-finite results of a division by zero when it
  is.
\<close>

theorem analyzeOrbit_percentages:
  assumes "analyzeOrbit points (Some m) = Some r"
  shows "(meta_e m = 0 \<longrightarrow> e_pct (percent r) = Some 0) \<and>
         (meta_e m \<noteq> 0 \<longrightarrow>
            e_pct (percent r) =
              map_option (\<lambda>ev. (ev - meta_e m) / meta_e m * 100) (derived_e (derived r))) \<and>
         a_pct (percent r) =
           (if meta_a_au m = 0 then None
            else Some ((derived_a_au (derived r) - meta_a_au m) / meta_a_au m * 100)) \<and>
         q_pct (percent r) =
           (if meta_q_au m = 0 then None
            else Some ((derived_q_au (derived r) - meta_q_au m) / meta_q_au m * 100)) \<and>
         Q_pct (percent r) =
           (if meta_Q_au m = 0 then None
            else Some ((derived_Q_au (derived r) - meta_Q_au m) / meta_Q_au m * 100))"
proof -
  from assms have len: "\<not> length points < 4"
    by (auto simp: analyzeOrbit_def)
  from assms show ?thesis
    unfolding analyzeOrbit_def Let_def using len
    by (cases "derived_e (derived r)") (auto simp: js_div_def split: if_splits)
qed

theorem analyzeOrbit_percentages_witness:
  "analyzeOrbit unit_points
     (Some \<lparr>meta_a_au = 2, meta_e = 0, meta_q_au = 0, meta_Q_au = 1\<rparr>) \<noteq> None \<and>
   e_pct (percent (the (analyzeOrbit unit_points
     (Some \<lparr>meta_a_au = 2, meta_e = 0, meta_q_au = 0, meta_Q_au = 1\<rparr>)))) = Some 0 \<and>
   q_pct (percent (the (analyzeOrbit unit_points
     (Some \<lparr>meta_a_au = 2, meta_e = 0, meta_q_au = 0, meta_Q_au = 1\<rparr>)))) = None \<and>
   a_pct (percent (the (analyzeOrbit unit_points
     (Some \<lparr>meta_a_au = 2, meta_e = 0, meta_q_au = 0, meta_Q_au = 1\<rparr>)))) \<noteq> None \<and>
   analyzeOrbit unit_points
     (Some \<lparr>meta_a_au = 1, meta_e = 1 / 2, meta_q_au = 1, meta_Q_au = 1\<rparr>) \<noteq> None \<and>
   e_pct (percent (the (analyzeOrbit unit_points
     (Some \<lparr>meta_a_au = 1, meta_e = 1 / 2, meta_q_au = 1, meta_Q_au = 1\<rparr>)))) = Some (- 100)"
proof -
  let ?m = "\<lparr>meta_a_au = 2, meta_e = 0, meta_q_au = 0, meta_Q_au = 1\<rparr>"
  let ?n = "\<lparr>meta_a_au = 1, meta_e = 1 / 2, meta_q_au = 1, meta_Q_au = 1\<rparr>"
  have ne: "analyzeOrbit unit_points (Some ?m) \<noteq> None"
    by (simp add: analyzeOrbit_def unit_points_def Let_def)
  then have h: "analyzeOrbit unit_points (Some ?m) = Some (the (analyzeOrbit unit_points (Some ?m)))"
    by simp
  have ne': "analyzeOrbit unit_points (Some ?n) \<noteq> None"
    by (simp add: analyzeOrbit_def unit_points_def Let_def)
  then have h': "analyzeOrbit unit_points (Some ?n) = Some (the (analyzeOrbit unit_points (Some ?n)))"
    by simp
  have e: "derived_e (derived (the (analyzeOrbit unit_points (Some ?n)))) = Some 0"
    by (simp add: analyzeOrbit_def rs_unit_points Let_def js_div_def Math_min_def Math_max_def
        SCALE_FACTOR_def AU_KM_def)
      (simp add: unit_points_def)
  show ?thesis
    using analyzeOrbit_percentages [OF h] analyzeOrbit_percentages [OF h'] ne ne' e by simp
qed

section \<open>Earth's position\<close>

text \<open>The remainder keeps the sign of the dividend.\<close>

lemma js_rem_examples: "js_rem 7 2 = 1" "js_rem (- 7) 2 = - 1" "js_rem (15 / 2) 2 = 3 / 2"
  by (simp_all add: js_rem_def js_trunc_def)

lemma sin_shift: "sin (x + 2 * pi * of_int j) = sin (x::real)"
  by (simp add: sin_add)

lemma cos_shift: "cos (x + 2 * pi * of_int j) = cos (x::real)"
  by (simp add: cos_add)

lemma newton_shift:
  "newton it e (M + 2 * pi * of_int j) (E + 2 * pi * of_int j) =
   newton it e M E + 2 * pi * of_int j"
proof (induction it arbitrary: E)
  case 0
  show ?case by simp
next
  case (Suc it)
  let ?s = "2 * pi * of_int j"
  let ?E = "E - (E - e * sin E - M) / (1 - e * cos E)"
  have num: "E + ?s - e * sin E - (M + ?s) = E - e * sin E - M"
    by simp
  have arg: "E + ?s - (E + ?s - e * sin (E + ?s) - (M + ?s)) / (1 - e * cos (E + ?s))
               = ?E + ?s"
    unfolding sin_shift cos_shift num by simp
  have "newton (Suc it) e (M + ?s) (E + ?s) = newton it e (M + ?s) (?E + ?s)"
    by (simp only: newton.simps Let_def arg)
  also have "\<dots> = newton it e M ?E + ?s"
    by (rule Suc.IH)
  also have "newton it e M ?E = newton (Suc it) e M E"
    by (simp only: newton.simps Let_def)
  finally show ?case .
qed

lemma period_nonzero: "EARTH_ORBITAL_PERIOD \<noteq> 0"
  by (simp add: EARTH_ORBITAL_PERIOD_def)

lemma js_rem_shift:
  assumes "P \<noteq> 0"
  shows "\<exists>j::int. js_rem (t + of_int k * P) P = js_rem t P + of_int j * P"
proof -
  have "(t + of_int k * P) / P = t / P + of_int k"
    using assms by (simp add: field_simps)
  then have "js_rem (t + of_int k * P) P
      = js_rem t P + of_int (k + js_trunc (t / P) - js_trunc (t / P + of_int k)) * P"
    by (simp add: js_rem_def algebra_simps)
  then show ?thesis by blast
qed

text \<open>
  Claim C9.  For every time \<open>t\<close> and every integer \<open>k\<close>, the position at
  \<open>t + k * period\<close> is the position at \<open>t\<close>: the two reduced times differ by a whole
  number of periods, the two mean anomalies by a multiple of \<open>2 * pi\<close>, and each of the
  seven Newton steps carries that shift along.
\<close>

theorem getEarthPosition_periodic:
  "getEarthPosition (t + of_int k * EARTH_ORBITAL_PERIOD) = getEarthPosition t"
proof -
  obtain j :: int where j:
    "js_rem (t + of_int k * EARTH_ORBITAL_PERIOD) EARTH_ORBITAL_PERIOD
       = js_rem t EARTH_ORBITAL_PERIOD + of_int j * EARTH_ORBITAL_PERIOD"
    using js_rem_shift [OF period_nonzero] by blast
  have M': "EARTH_MEAN_ANOMALY_EPOCH + 2 * pi / EARTH_ORBITAL_PERIOD
              * js_rem (t + of_int k * EARTH_ORBITAL_PERIOD) EARTH_ORBITAL_PERIOD
            = (EARTH_MEAN_ANOMALY_EPOCH
                 + 2 * pi / EARTH_ORBITAL_PERIOD * js_rem t EARTH_ORBITAL_PERIOD)
              + 2 * pi * of_int j"
    unfolding j using period_nonzero by (simp add: field_simps)
  show ?thesis
    by (simp only: getEarthPosition_def Let_def M' newton_shift sin_shift cos_shift)
qed

end
